theory Spec2Isabelle
  imports Main
begin

section \<open>Peer identifiers\<close>

text \<open>
  The client (\<^verbatim>\<open>client/src/App.jsx\<close>) keeps its connections in
  \<^verbatim>\<open>pcsRef.current\<close>, a plain object used as a dictionary keyed by peer
  identifier.  A plain object answers a lookup of a name of a property of
  \<^verbatim>\<open>Object.prototype\<close> with the inherited value, and assigning to
  \<^verbatim>\<open>__proto__\<close> replaces its prototype instead of storing an entry.  These
  are the names concerned:
\<close>

definition object_prototype_names :: "string list" where
  "object_prototype_names =
     [''constructor'', ''__defineGetter__'', ''__defineSetter__'', ''hasOwnProperty'',
      ''__lookupGetter__'', ''__lookupSetter__'', ''isPrototypeOf'', ''propertyIsEnumerable'',
      ''toString'', ''valueOf'', ''__proto__'', ''toLocaleString'']"

text \<open>
  A peer identifier is the \<^verbatim>\<open>socket.id\<close> of a client, a text the signaling
  server generates; it is none of these names.  The type of peer identifiers leaves
  them out, and for its members lookup, assignment and \<^verbatim>\<open>delete\<close> on the
  plain object are those of a partial map.  \<open>peer_name\<close> is the text of an
  identifier, \<open>Peer\<close> the identifier with a given text.
\<close>

typedef peer_id = "{s :: string. s \<notin> set object_prototype_names}"
  morphisms peer_name Peer
  by (rule exI [of _ "[]"]) (simp add: object_prototype_names_def)

section \<open>Values exchanged with the browser and the signaling server\<close>

text \<open>
  The client and the peer-connection factory (\<^verbatim>\<open>src/webrtc.js\<close>) only
  pass session descriptions, ICE candidates, media streams and thrown exceptions
  around; their contents are never inspected by the code, so each is a wrapper
  around an opaque text.
\<close>

datatype session_description = SessionDescription string

datatype ice_candidate = IceCandidate string

datatype track = MediaStreamTrack string

datatype stream = MediaStream (getTracks: "track list")

datatype exn = Exn string

text \<open>A JavaScript value that may be \<^verbatim>\<open>undefined\<close> (\<open>None\<close>).\<close>

type_synonym js_stream = "stream option"

text \<open>
  The events an \<^verbatim>\<open>RTCPeerConnection\<close> delivers to its two callbacks:
  \<^verbatim>\<open>event.candidate\<close> is \<^verbatim>\<open>null\<close> (\<open>None\<close>) for the
  end-of-candidates event, \<^verbatim>\<open>event.streams\<close> is an array.
\<close>

datatype ice_event = IceEvent (candidate: "ice_candidate option")

datatype track_event = TrackEvent (streams: "stream list")

text \<open>
  A payload of \<^verbatim>\<open>socket.emit\<close> is an object literal: its fields in the order
  written, each holding a string, a session description or a candidate.
\<close>

datatype jsval = JStr string | JSdp session_description | JCand ice_candidate

type_synonym payload = "(string \<times> jsval) list"

text \<open>The acknowledgment of \<^verbatim>\<open>host-room\<close> and \<^verbatim>\<open>join-room\<close>:
  \<^verbatim>\<open>{ok, error?, peers?}\<close>.\<close>

record ack =
  ack_ok :: bool
  ack_error :: "string option"
  ack_peers :: "peer_id list option"

section \<open>Peer connections, the client state and observable effects\<close>

text \<open>
  \<^verbatim>\<open>RTCPeerConnection\<close> objects are mutable and shared by reference
  (\<^verbatim>\<open>pcsRef.current\<close> stores references, an overwritten entry leaves the old
  object alive), so they live in an explicit store: a reference is the index of the
  object in \<open>heap\<close>, and \<^verbatim>\<open>new RTCPeerConnection\<close> appends.  Of a
  connection the code determines the peer its callbacks were created for (the
  \<^verbatim>\<open>peerId\<close> captured by \<^verbatim>\<open>createPeerConnection\<close>), the tracks
  added to it and whether \<^verbatim>\<open>close()\<close> was called.
\<close>

type_synonym pc_ref = nat

record peer_connection =
  pc_peerId :: peer_id
  pc_tracks :: "track list"
  pc_closed :: bool

text \<open>
  The state of the \<^verbatim>\<open>App\<close> component: \<^verbatim>\<open>socket.id\<close>, the two refs
  \<^verbatim>\<open>localStreamRef\<close> and \<^verbatim>\<open>pcsRef\<close>, and the React state
  variables the handlers write.
\<close>

record client =
  socket_id :: peer_id
  localStreamRef :: "stream option"
  pcsRef :: "peer_id \<rightharpoonup> pc_ref"
  remoteStreams :: "peer_id \<rightharpoonup> js_stream"
  heap :: "peer_connection list"
  roomId :: string
  password :: string
  inRoom :: bool
  error :: string

text \<open>
  Every call that leaves the component is recorded, in program order: calls of the
  media and negotiation capability, and messages given to \<^verbatim>\<open>socket.emit\<close>.
\<close>

datatype effect =
    GetUserMedia
  | NewRTCPeerConnection pc_ref
  | AddTrack pc_ref track
  | CreateOffer pc_ref
  | CreateAnswer pc_ref
  | SetLocalDescription pc_ref session_description
  | SetRemoteDescription pc_ref session_description
  | AddIceCandidate pc_ref ice_candidate
  | Close pc_ref
  | Emit string payload

text \<open>
  The outcome of each awaited capability call is chosen by the browser, not by the
  code: \<open>Inl e\<close> is a rejected promise (or a throw while building the argument, as
  in \<^verbatim>\<open>new RTCSessionDescription(sdp)\<close>), \<open>Inr v\<close> a fulfilled one.
\<close>

record browser =
  getUserMedia :: "exn + stream"
  createOffer :: "pc_ref \<Rightarrow> exn + session_description"
  createAnswer :: "pc_ref \<Rightarrow> exn + session_description"
  setLocalDescription :: "pc_ref \<Rightarrow> session_description \<Rightarrow> exn + unit"
  setRemoteDescription :: "pc_ref \<Rightarrow> session_description \<Rightarrow> exn + unit"
  addIceCandidate :: "pc_ref \<Rightarrow> ice_candidate \<Rightarrow> exn + unit"

section \<open>Sequencing\<close>

text \<open>
  A handler maps the state to its completion (\<open>Inl e\<close>: it threw, or its promise
  rejected), the effects it performed and the new state.  Each handler is taken
  to run to completion before the next event is handled.
\<close>

type_synonym 'a io = "client \<Rightarrow> (exn + 'a) \<times> effect list \<times> client"

definition ret :: "'a \<Rightarrow> 'a io" where
  "ret x st = (Inr x, [], st)"

text \<open>Statement sequencing: an exception of the first part skips the rest.\<close>

definition and_then :: "'a io \<Rightarrow> ('a \<Rightarrow> 'b io) \<Rightarrow> 'b io" where
  "and_then m f st =
     (case m st of
        (Inl e, fx, st1) \<Rightarrow> (Inl e, fx, st1)
      | (Inr x, fx, st1) \<Rightarrow>
          (case f x st1 of (r, fx', st2) \<Rightarrow> (r, fx @ fx', st2)))"

text \<open>\<^verbatim>\<open>await\<close> of a capability call: the call is recorded, the browser decides
  its outcome.\<close>

definition await :: "effect \<Rightarrow> exn + 'a \<Rightarrow> 'a io" where
  "await call outcome st = (outcome, [call], st)"

definition modify :: "(client \<Rightarrow> client) \<Rightarrow> unit io" where
  "modify f st = (Inr (), [], f st)"

text \<open>\<^verbatim>\<open>socket.emit(event, payload)\<close>; the payload is built when the statement
  runs (it reads \<^verbatim>\<open>socket.id\<close>).\<close>

definition emit :: "string \<Rightarrow> (client \<Rightarrow> payload) \<Rightarrow> unit io" where
  "emit ev pl st = (Inr (), [Emit ev (pl st)], st)"

text \<open>\<^verbatim>\<open>try { ... } catch (e) { }\<close> with an empty handler.\<close>

definition try_catch :: "unit io \<Rightarrow> unit io" where
  "try_catch m st =
     (case m st of
        (Inl e, fx, st1) \<Rightarrow> (Inr (), fx, st1)
      | (Inr x, fx, st1) \<Rightarrow> (Inr x, fx, st1))"

text \<open>
  Events are dispatched one after the other, each in a task of its own: what one
  handler throws does not stop the next.
\<close>

fun dispatch :: "('e \<Rightarrow> unit io) \<Rightarrow> 'e list \<Rightarrow> client \<Rightarrow> effect list \<times> client" where
  "dispatch h [] st = ([], st)"
| "dispatch h (e # es) st =
     (case h e st of (r, fx, st1) \<Rightarrow>
        (case dispatch h es st1 of (fx', st2) \<Rightarrow> (fx @ fx', st2)))"

section \<open>\<^verbatim>\<open>webrtc.js\<close>: the peer-connection factory\<close>

text \<open>
  \<^verbatim>\<open>pc.ontrack = (event) => { onTrack(peerId, event.streams[0]); }\<close>:
  index 0 of an empty array is \<^verbatim>\<open>undefined\<close>.
\<close>

definition ontrack :: "peer_id \<Rightarrow> (peer_id \<Rightarrow> js_stream \<Rightarrow> unit io) \<Rightarrow> track_event \<Rightarrow> unit io" where
  "ontrack peerId onTrack event =
     onTrack peerId (case streams event of [] \<Rightarrow> None | s # _ \<Rightarrow> Some s)"

text \<open>
  \<^verbatim>\<open>pc.onicecandidate = (event) => { if (event.candidate) onIceCandidate(peerId, event.candidate); }\<close>:
  a candidate object is truthy, \<^verbatim>\<open>null\<close> is not.
\<close>

definition onicecandidate ::
  "peer_id \<Rightarrow> (peer_id \<Rightarrow> ice_candidate \<Rightarrow> unit io) \<Rightarrow> ice_event \<Rightarrow> unit io" where
  "onicecandidate peerId onIceCandidate event =
     (case candidate event of
        Some c \<Rightarrow> onIceCandidate peerId c
      | None \<Rightarrow> ret ())"

text \<open>
  \<^verbatim>\<open>createPeerConnection\<close> allocates the connection, adds every local track
  and installs the two callbacks above; the callbacks close over \<^verbatim>\<open>peerId\<close>,
  which the stored object keeps as \<open>pc_peerId\<close>.
\<close>

definition createPeerConnection :: "peer_id \<Rightarrow> stream \<Rightarrow> pc_ref io" where
  "createPeerConnection peerId localStream st =
     (let pc = length (heap st)
      in (Inr pc,
          NewRTCPeerConnection pc # map (AddTrack pc) (getTracks localStream),
          st\<lparr>heap := heap st @
            [\<lparr>pc_peerId = peerId, pc_tracks = getTracks localStream, pc_closed = False\<rparr>]\<rparr>))"

text \<open>The candidates of the events that carry one, in order.\<close>

definition candidates_of :: "ice_event list \<Rightarrow> ice_candidate list" where
  "candidates_of evs = concat (map (\<lambda>ev. case candidate ev of Some c \<Rightarrow> [c] | None \<Rightarrow> []) evs)"

section \<open>\<^verbatim>\<open>App.jsx\<close>: the client\<close>

abbreviation result_of :: "(exn + 'a) \<times> effect list \<times> client \<Rightarrow> exn + 'a" where
  "result_of x \<equiv> fst x"

abbreviation effects_of :: "(exn + 'a) \<times> effect list \<times> client \<Rightarrow> effect list" where
  "effects_of x \<equiv> fst (snd x)"

abbreviation state_of :: "(exn + 'a) \<times> effect list \<times> client \<Rightarrow> client" where
  "state_of x \<equiv> snd (snd x)"

definition read :: "(client \<Rightarrow> 'a) \<Rightarrow> 'a io" where
  "read f st = (Inr (f st), [], st)"

text \<open>
  \<^verbatim>\<open>initLocalMedia\<close>: the cached stream if there is one, else
  \<^verbatim>\<open>getUserMedia\<close>, whose stream is cached.  (The assignment to the local
  video element is display only.)
\<close>

definition initLocalMedia :: "browser \<Rightarrow> stream io" where
  "initLocalMedia b =
     and_then (read localStreamRef) (\<lambda>current.
     case current of
       Some s \<Rightarrow> ret s
     | None \<Rightarrow>
         and_then (await GetUserMedia (getUserMedia b)) (\<lambda>s.
         and_then (modify (\<lambda>st. st\<lparr>localStreamRef := Some s\<rparr>)) (\<lambda>_.
         ret s)))"

text \<open>\<^verbatim>\<open>pc.close()\<close> on the object a reference points to.\<close>

definition pc_close :: "pc_ref \<Rightarrow> unit io" where
  "pc_close r st =
     (Inr (), [Close r],
      st\<lparr>heap := (if r < length (heap st)
                   then (heap st)[r := (heap st ! r)\<lparr>pc_closed := True\<rparr>]
                   else heap st)\<rparr>)"

text \<open>
  \<^verbatim>\<open>cleanupPeer\<close>: close the stored connection if there is one, delete the
  table entry, delete the remote stream.  \<^verbatim>\<open>delete\<close> of an absent key does
  nothing; the state updater of \<^verbatim>\<open>setRemoteStreams\<close> is applied in order.
\<close>

definition cleanupPeer :: "peer_id \<Rightarrow> unit io" where
  "cleanupPeer peerId =
     and_then (read (\<lambda>st. pcsRef st peerId)) (\<lambda>pc.
     and_then (case pc of Some r \<Rightarrow> pc_close r | None \<Rightarrow> ret ()) (\<lambda>_.
     and_then (modify (\<lambda>st. st\<lparr>pcsRef := (pcsRef st)(peerId := None)\<rparr>)) (\<lambda>_.
     modify (\<lambda>st. st\<lparr>remoteStreams := (remoteStreams st)(peerId := None)\<rparr>))))"

definition setRemote :: "peer_id \<Rightarrow> js_stream \<Rightarrow> unit io" where
  "setRemote peerId stream =
     modify (\<lambda>st. st\<lparr>remoteStreams := (remoteStreams st)(peerId \<mapsto> stream)\<rparr>)"

text \<open>The arrow function both call sites pass as \<^verbatim>\<open>onIceCandidate\<close>.\<close>

definition onIceCandidate :: "peer_id \<Rightarrow> ice_candidate \<Rightarrow> unit io" where
  "onIceCandidate peerId cand =
     emit ''webrtc-ice''
       (\<lambda>st. [(''to'', JStr (peer_name peerId)), (''from'', JStr (peer_name (socket_id st))), (''candidate'', JCand cand)])"

definition makeOffer :: "browser \<Rightarrow> peer_id \<Rightarrow> unit io" where
  "makeOffer b toPeerId =
     and_then (initLocalMedia b) (\<lambda>localStream.
     and_then (createPeerConnection toPeerId localStream) (\<lambda>pc.
     and_then (modify (\<lambda>st. st\<lparr>pcsRef := (pcsRef st)(toPeerId \<mapsto> pc)\<rparr>)) (\<lambda>_.
     and_then (await (CreateOffer pc) (createOffer b pc)) (\<lambda>offer.
     and_then (await (SetLocalDescription pc offer) (setLocalDescription b pc offer)) (\<lambda>_.
     emit ''webrtc-offer''
       (\<lambda>st. [(''to'', JStr (peer_name toPeerId)), (''from'', JStr (peer_name (socket_id st))), (''sdp'', JSdp offer)]))))))"

definition handleOffer :: "browser \<Rightarrow> peer_id \<Rightarrow> session_description \<Rightarrow> unit io" where
  "handleOffer b from sdp =
     and_then (initLocalMedia b) (\<lambda>localStream.
     and_then (createPeerConnection from localStream) (\<lambda>pc.
     and_then (modify (\<lambda>st. st\<lparr>pcsRef := (pcsRef st)(from \<mapsto> pc)\<rparr>)) (\<lambda>_.
     and_then (await (SetRemoteDescription pc sdp) (setRemoteDescription b pc sdp)) (\<lambda>_.
     and_then (await (CreateAnswer pc) (createAnswer b pc)) (\<lambda>answer.
     and_then (await (SetLocalDescription pc answer) (setLocalDescription b pc answer)) (\<lambda>_.
     emit ''webrtc-answer''
       (\<lambda>st. [(''to'', JStr (peer_name from)), (''from'', JStr (peer_name (socket_id st))), (''sdp'', JSdp answer)])))))))"

definition handleAnswer :: "browser \<Rightarrow> peer_id \<Rightarrow> session_description \<Rightarrow> unit io" where
  "handleAnswer b from sdp =
     and_then (read (\<lambda>st. pcsRef st from)) (\<lambda>pc.
     case pc of
       None \<Rightarrow> ret ()
     | Some r \<Rightarrow> await (SetRemoteDescription r sdp) (setRemoteDescription b r sdp))"

definition handleIce :: "browser \<Rightarrow> peer_id \<Rightarrow> ice_candidate \<Rightarrow> unit io" where
  "handleIce b from cand =
     and_then (read (\<lambda>st. pcsRef st from)) (\<lambda>pc.
     case pc of
       None \<Rightarrow> ret ()
     | Some r \<Rightarrow> try_catch (await (AddIceCandidate r cand) (addIceCandidate b r cand)))"

text \<open>\<^verbatim>\<open>res?.error || fallback\<close>: a missing, undefined or empty text is falsy.\<close>

definition error_or :: "ack option \<Rightarrow> string \<Rightarrow> string" where
  "error_or res fallback =
     (case res of
        None \<Rightarrow> fallback
      | Some a \<Rightarrow> (case ack_error a of
                     None \<Rightarrow> fallback
                   | Some e \<Rightarrow> if e = [] then fallback else e))"

text \<open>\<^verbatim>\<open>!res?.ok\<close>.\<close>

definition not_ok :: "ack option \<Rightarrow> bool" where
  "not_ok res = (case res of None \<Rightarrow> True | Some a \<Rightarrow> \<not> ack_ok a)"

definition setError :: "string \<Rightarrow> unit io" where
  "setError e = modify (\<lambda>st. st\<lparr>error := e\<rparr>)"

definition setInRoom :: "bool \<Rightarrow> unit io" where
  "setInRoom v = modify (\<lambda>st. st\<lparr>inRoom := v\<rparr>)"

text \<open>\<^verbatim>\<open>hostRoom\<close> up to the emit, and the acknowledgment callback it passes.\<close>

definition hostRoom :: "unit io" where
  "hostRoom =
     and_then (setError []) (\<lambda>_.
     emit ''host-room'' (\<lambda>st. [(''roomId'', JStr (roomId st)), (''password'', JStr (password st))]))"

definition hostRoom_ack :: "browser \<Rightarrow> ack option \<Rightarrow> unit io" where
  "hostRoom_ack b res =
     (if not_ok res then setError (error_or res ''Host failed'')
      else and_then (initLocalMedia b) (\<lambda>_. setInRoom True))"

text \<open>
  The loop \<^verbatim>\<open>for (const peerId of peers) await makeOffer(peerId)\<close>: the first
  offer that throws ends it.
\<close>

fun makeOffers :: "browser \<Rightarrow> peer_id list \<Rightarrow> unit io" where
  "makeOffers b [] st = ret () st"
| "makeOffers b (peerId # rest) st = and_then (makeOffer b peerId) (\<lambda>_. makeOffers b rest) st"

definition joinRoom :: "unit io" where
  "joinRoom =
     and_then (setError []) (\<lambda>_.
     emit ''join-room'' (\<lambda>st. [(''roomId'', JStr (roomId st)), (''password'', JStr (password st))]))"

definition joinRoom_ack :: "browser \<Rightarrow> ack option \<Rightarrow> unit io" where
  "joinRoom_ack b res =
     (if not_ok res then setError (error_or res ''Join failed'')
      else and_then (initLocalMedia b) (\<lambda>_.
           and_then (setInRoom True) (\<lambda>_.
           makeOffers b (case res of
                           None \<Rightarrow> []
                         | Some a \<Rightarrow> (case ack_peers a of None \<Rightarrow> [] | Some ps \<Rightarrow> ps)))))"

text \<open>
  Everything the component reacts to: the five socket events registered in
  \<^verbatim>\<open>useEffect\<close>, the two acknowledgments, the two buttons, and the two
  callbacks of a connection that exists (each runs with the \<^verbatim>\<open>peerId\<close> the
  connection was created for).
\<close>

datatype event =
    PeerJoined peer_id
  | PeerLeft peer_id
  | WebrtcOffer peer_id session_description
  | WebrtcAnswer peer_id session_description
  | WebrtcIce peer_id ice_candidate
  | HostRoomAck "ack option"
  | JoinRoomAck "ack option"
  | HostRoomClick
  | JoinRoomClick
  | PcTrack pc_ref track_event
  | PcIceCandidate pc_ref ice_event

fun handle :: "browser \<Rightarrow> event \<Rightarrow> unit io" where
  "handle b (PeerJoined peerId) = makeOffer b peerId"
| "handle b (PeerLeft peerId) = cleanupPeer peerId"
| "handle b (WebrtcOffer from sdp) = handleOffer b from sdp"
| "handle b (WebrtcAnswer from sdp) = handleAnswer b from sdp"
| "handle b (WebrtcIce from cand) = handleIce b from cand"
| "handle b (HostRoomAck res) = hostRoom_ack b res"
| "handle b (JoinRoomAck res) = joinRoom_ack b res"
| "handle b HostRoomClick = hostRoom"
| "handle b JoinRoomClick = joinRoom"
| "handle b (PcTrack r ev) =
     (\<lambda>st. if r < length (heap st) then ontrack (pc_peerId (heap st ! r)) setRemote ev st
           else ret () st)"
| "handle b (PcIceCandidate r ev) =
     (\<lambda>st. if r < length (heap st) then onicecandidate (pc_peerId (heap st ! r)) onIceCandidate ev st
           else ret () st)"

text \<open>The component as first rendered, connected as \<open>self\<close>.\<close>

definition init :: "peer_id \<Rightarrow> client" where
  "init self =
     \<lparr>socket_id = self, localStreamRef = None, pcsRef = Map.empty, remoteStreams = Map.empty,
      heap = [], roomId = [], password = [], inRoom = False, error = []\<rparr>"

section \<open>Reading the effects\<close>

text \<open>The messages given to \<^verbatim>\<open>socket.emit\<close>, in order.\<close>

fun emitted_by :: "effect \<Rightarrow> (string \<times> payload) list" where
  "emitted_by (Emit ev pl) = [(ev, pl)]"
| "emitted_by _ = []"

definition emitted :: "effect list \<Rightarrow> (string \<times> payload) list" where
  "emitted fx = concat (map emitted_by fx)"

text \<open>The \<^verbatim>\<open>to\<close> of every emitted \<^verbatim>\<open>webrtc-offer\<close>, in order.\<close>

definition offer_to :: "string \<times> payload \<Rightarrow> peer_id list" where
  "offer_to m =
     (if fst m = ''webrtc-offer''
      then (case map_of (snd m) ''to'' of Some (JStr t) \<Rightarrow> [Peer t] | _ \<Rightarrow> [])
      else [])"

definition offer_targets :: "effect list \<Rightarrow> peer_id list" where
  "offer_targets fx = concat (map offer_to (emitted fx))"

text \<open>
  The payload shapes of the signaling table: \<^verbatim>\<open>{to, from, sdp}\<close> for
  \<^verbatim>\<open>webrtc-offer\<close> and \<^verbatim>\<open>webrtc-answer\<close>, \<^verbatim>\<open>{to, from, candidate}\<close>
  for \<^verbatim>\<open>webrtc-ice\<close>, with \<^verbatim>\<open>from\<close> the sender \<open>self\<close>.
\<close>

definition is_sdp_payload :: "peer_id \<Rightarrow> payload \<Rightarrow> bool" where
  "is_sdp_payload self pl =
     (case pl of
        [(k1, JStr t), (k2, JStr f), (k3, JSdp d)] \<Rightarrow>
          k1 = ''to'' \<and> k2 = ''from'' \<and> f = peer_name self \<and> k3 = ''sdp''
      | _ \<Rightarrow> False)"

definition is_ice_payload :: "peer_id \<Rightarrow> payload \<Rightarrow> bool" where
  "is_ice_payload self pl =
     (case pl of
        [(k1, JStr t), (k2, JStr f), (k3, JCand c)] \<Rightarrow>
          k1 = ''to'' \<and> k2 = ''from'' \<and> f = peer_name self \<and> k3 = ''candidate''
      | _ \<Rightarrow> False)"

definition wire_ok :: "peer_id \<Rightarrow> string \<times> payload \<Rightarrow> bool" where
  "wire_ok self m =
     (if fst m = ''webrtc-offer'' \<or> fst m = ''webrtc-answer'' then is_sdp_payload self (snd m)
      else if fst m = ''webrtc-ice'' then is_ice_payload self (snd m)
      else True)"

section \<open>Concrete browsers and clients\<close>

text \<open>A camera stream with an audio and a video track.\<close>

definition camera :: stream where
  "camera = MediaStream [MediaStreamTrack ''audio'', MediaStreamTrack ''video'']"

text \<open>A browser in which every capability call is fulfilled.\<close>

definition browser_ok :: browser where
  "browser_ok =
     \<lparr>getUserMedia = Inr camera,
      createOffer = (\<lambda>r. Inr (SessionDescription ''offer'')),
      createAnswer = (\<lambda>r. Inr (SessionDescription ''answer'')),
      setLocalDescription = (\<lambda>r d. Inr ()),
      setRemoteDescription = (\<lambda>r d. Inr ()),
      addIceCandidate = (\<lambda>r c. Inr ())\<rparr>"

text \<open>The same browser when a candidate arrives before the remote description is
  set: \<^verbatim>\<open>addIceCandidate\<close> rejects.\<close>

definition browser_early_candidate :: browser where
  "browser_early_candidate =
     browser_ok\<lparr>addIceCandidate := (\<lambda>r c. Inl (Exn ''InvalidStateError''))\<rparr>"

text \<open>A browser that rejects the remote description of every offer and answer.\<close>

definition browser_bad_remote :: browser where
  "browser_bad_remote =
     browser_ok\<lparr>setRemoteDescription := (\<lambda>r d. Inl (Exn ''InvalidAccessError''))\<rparr>"

text \<open>A client in a room with the peers \<open>p\<close> and \<open>q\<close>, one connection each.\<close>

definition in_call :: client where
  "in_call =
     \<lparr>socket_id = Peer ''me'', localStreamRef = Some camera,
      pcsRef = [Peer ''p'' \<mapsto> 0, Peer ''q'' \<mapsto> 1],
      remoteStreams = [Peer ''p'' \<mapsto> Some camera, Peer ''q'' \<mapsto> Some camera],
      heap = [\<lparr>pc_peerId = Peer ''p'', pc_tracks = getTracks camera, pc_closed = False\<rparr>,
              \<lparr>pc_peerId = Peer ''q'', pc_tracks = getTracks camera, pc_closed = False\<rparr>],
      roomId = ''r1'', password = ''pw'', inRoom = True, error = []\<rparr>"

text \<open>
  A client that holds a remote stream of \<open>p\<close> but no table entry for \<open>p\<close>: two
  connections were created for \<open>p\<close>, the second replaced the first in the table
  and was closed when \<open>p\<close> left, the first is still open.
\<close>

definition stale_stream :: client where
  "stale_stream =
     \<lparr>socket_id = Peer ''me'', localStreamRef = Some camera,
      pcsRef = Map.empty,
      remoteStreams = [Peer ''p'' \<mapsto> Some camera],
      heap = [\<lparr>pc_peerId = Peer ''p'', pc_tracks = getTracks camera, pc_closed = False\<rparr>,
              \<lparr>pc_peerId = Peer ''p'', pc_tracks = getTracks camera, pc_closed = True\<rparr>],
      roomId = [], password = [], inRoom = False, error = []\<rparr>"

section \<open>What each handler computes\<close>

lemma peer_name_Peer: "s \<notin> set object_prototype_names \<Longrightarrow> peer_name (Peer s) = s"
  by (simp add: Peer_inverse)

lemma Peer_eq_iff:
  "a \<notin> set object_prototype_names \<Longrightarrow> b \<notin> set object_prototype_names \<Longrightarrow>
     (Peer a = Peer b) = (a = b)"
  by (simp add: Peer_inject)

lemmas peer_simps = peer_name_Peer Peer_eq_iff peer_name_inverse object_prototype_names_def

lemmas io_defs = ret_def and_then_def await_def modify_def emit_def try_catch_def read_def

lemmas handler_defs = makeOffer_def handleOffer_def handleAnswer_def handleIce_def cleanupPeer_def
  pc_close_def createPeerConnection_def initLocalMedia_def joinRoom_ack_def not_ok_def setInRoom_def
  setError_def ontrack_def setRemote_def onicecandidate_def onIceCandidate_def

lemma initLocalMedia_unfold:
  "initLocalMedia b st =
     (case localStreamRef st of
        Some s \<Rightarrow> (Inr s, [], st)
      | None \<Rightarrow> (case getUserMedia b of
                   Inl e \<Rightarrow> (Inl e, [GetUserMedia], st)
                 | Inr s \<Rightarrow> (Inr s, [GetUserMedia], st\<lparr>localStreamRef := Some s\<rparr>)))"
  by (simp add: initLocalMedia_def io_defs split: option.splits sum.splits)

lemma initLocalMedia_frame:
  "pcsRef (state_of (initLocalMedia b st)) = pcsRef st"
  "remoteStreams (state_of (initLocalMedia b st)) = remoteStreams st"
  "heap (state_of (initLocalMedia b st)) = heap st"
  "socket_id (state_of (initLocalMedia b st)) = socket_id st"
  by (simp_all add: initLocalMedia_unfold split: option.splits sum.splits)

lemma cleanupPeer_unfold:
  "cleanupPeer p st =
     (Inr (),
      (case pcsRef st p of None \<Rightarrow> [] | Some r \<Rightarrow> [Close r]),
      st\<lparr>heap := (case pcsRef st p of
                    None \<Rightarrow> heap st
                  | Some r \<Rightarrow> if r < length (heap st)
                              then (heap st)[r := (heap st ! r)\<lparr>pc_closed := True\<rparr>]
                              else heap st),
         pcsRef := (pcsRef st)(p := None),
         remoteStreams := (remoteStreams st)(p := None)\<rparr>)"
  by (simp add: cleanupPeer_def pc_close_def io_defs split: option.splits)

lemma handleAnswer_unfold:
  "handleAnswer b f sdp st =
     (case pcsRef st f of
        None \<Rightarrow> (Inr (), [], st)
      | Some r \<Rightarrow> (setRemoteDescription b r sdp, [SetRemoteDescription r sdp], st))"
  by (simp add: handleAnswer_def io_defs split: option.splits)

lemma handleIce_unfold:
  "handleIce b f c st =
     (case pcsRef st f of
        None \<Rightarrow> (Inr (), [], st)
      | Some r \<Rightarrow> (Inr (), [AddIceCandidate r c], st))"
  by (simp add: handleIce_def io_defs split: option.splits sum.splits)

text \<open>
  Both \<^verbatim>\<open>makeOffer\<close> and \<^verbatim>\<open>handleOffer\<close> leave the state as it was when
  the local media cannot be had, and otherwise allocate a connection and store it
  under the peer, whatever the negotiation calls answer afterwards.
\<close>

lemma makeOffer_state:
  "state_of (makeOffer b p st) =
     (case result_of (initLocalMedia b st) of
        Inl e \<Rightarrow> st
      | Inr s \<Rightarrow> (state_of (initLocalMedia b st))
                  \<lparr>heap := heap st @ [\<lparr>pc_peerId = p, pc_tracks = getTracks s, pc_closed = False\<rparr>],
                   pcsRef := (pcsRef st)(p \<mapsto> length (heap st))\<rparr>)"
  by (simp add: makeOffer_def createPeerConnection_def initLocalMedia_unfold io_defs Let_def
      split: option.splits sum.splits)

lemma handleOffer_state:
  "state_of (handleOffer b p sdp st) =
     (case result_of (initLocalMedia b st) of
        Inl e \<Rightarrow> st
      | Inr s \<Rightarrow> (state_of (initLocalMedia b st))
                  \<lparr>heap := heap st @ [\<lparr>pc_peerId = p, pc_tracks = getTracks s, pc_closed = False\<rparr>],
                   pcsRef := (pcsRef st)(p \<mapsto> length (heap st))\<rparr>)"
  by (simp add: handleOffer_def createPeerConnection_def initLocalMedia_unfold io_defs Let_def
      split: option.splits sum.splits)

lemma makeOffer_socket_id: "socket_id (state_of (makeOffer b p st)) = socket_id st"
  by (simp add: makeOffer_state initLocalMedia_frame split: sum.splits)

subsection \<open>Emitted messages\<close>

lemma emitted_append: "emitted (xs @ ys) = emitted xs @ emitted ys"
  by (simp add: emitted_def)

lemma offer_targets_append: "offer_targets (xs @ ys) = offer_targets xs @ offer_targets ys"
  by (simp add: offer_targets_def emitted_append)

lemma emitted_AddTrack: "emitted (map (AddTrack r) ts) = []"
  by (induction ts) (simp_all add: emitted_def)

lemma makeOffer_emits:
  "m \<in> set (emitted (effects_of (makeOffer b p st))) \<Longrightarrow>
     \<exists>d. m = (''webrtc-offer'', [(''to'', JStr (peer_name p)), (''from'', JStr (peer_name (socket_id st))), (''sdp'', JSdp d)])"
  by (auto simp add: makeOffer_def createPeerConnection_def initLocalMedia_unfold io_defs Let_def
      emitted_append emitted_AddTrack emitted_def split: option.splits sum.splits)

lemma handleOffer_emits:
  "m \<in> set (emitted (effects_of (handleOffer b f sdp st))) \<Longrightarrow>
     \<exists>d. m = (''webrtc-answer'', [(''to'', JStr (peer_name f)), (''from'', JStr (peer_name (socket_id st))), (''sdp'', JSdp d)])"
  by (auto simp add: handleOffer_def createPeerConnection_def initLocalMedia_unfold io_defs Let_def
      emitted_append emitted_AddTrack emitted_def split: option.splits sum.splits)

lemma wire_ok_offer:
  "wire_ok self (''webrtc-offer'', [(''to'', JStr (peer_name p)), (''from'', JStr (peer_name self)), (''sdp'', JSdp d)])"
  by (simp add: wire_ok_def is_sdp_payload_def)

lemma wire_ok_answer:
  "wire_ok self (''webrtc-answer'', [(''to'', JStr (peer_name p)), (''from'', JStr (peer_name self)), (''sdp'', JSdp d)])"
  by (simp add: wire_ok_def is_sdp_payload_def)

lemma wire_ok_ice:
  "wire_ok self (''webrtc-ice'', [(''to'', JStr (peer_name p)), (''from'', JStr (peer_name self)), (''candidate'', JCand c)])"
  by (simp add: wire_ok_def is_ice_payload_def)

subsection \<open>An offer whose capability calls are fulfilled\<close>

lemma makeOffer_ok:
  assumes "localStreamRef st = Some s"
    and "createOffer b (length (heap st)) = Inr d"
    and "setLocalDescription b (length (heap st)) d = Inr ()"
  shows "result_of (makeOffer b p st) = Inr ()"
    and "emitted (effects_of (makeOffer b p st)) =
           [(''webrtc-offer'', [(''to'', JStr (peer_name p)), (''from'', JStr (peer_name (socket_id st))), (''sdp'', JSdp d)])]"
    and "localStreamRef (state_of (makeOffer b p st)) = Some s"
  using assms
  by (simp_all add: makeOffer_def createPeerConnection_def initLocalMedia_unfold io_defs Let_def
      emitted_append emitted_AddTrack emitted_def)

lemma offer_targets_single:
  "emitted fx = [(''webrtc-offer'', [(''to'', JStr (peer_name p)), (''from'', JStr (peer_name f)), (''sdp'', JSdp d)])]
   \<Longrightarrow> offer_targets fx = [p]"
  by (simp add: offer_targets_def offer_to_def peer_name_inverse)

lemma initLocalMedia_ok:
  assumes "getUserMedia b = Inr s"
  obtains s' fx st' where "initLocalMedia b st = (Inr s', fx, st')"
    and "localStreamRef st' = Some s'" and "emitted fx = []"
proof (cases "localStreamRef st")
  case None
  with assms that [of s "[GetUserMedia]" "st\<lparr>localStreamRef := Some s\<rparr>"] show ?thesis
    by (simp add: initLocalMedia_unfold emitted_def)
next
  case (Some s')
  with that [of s' "[]" st] show ?thesis
    by (simp add: initLocalMedia_unfold emitted_def)
qed

text \<open>The loop of \<^verbatim>\<open>joinRoom\<close> offers to every listed peer, in the order listed.\<close>

lemma makeOffers_ok:
  assumes caps: "\<forall>r. \<exists>d. createOffer b r = Inr d \<and> setLocalDescription b r d = Inr ()"
  shows "localStreamRef st = Some s \<Longrightarrow>
      result_of (makeOffers b ps st) = Inr () \<and> offer_targets (effects_of (makeOffers b ps st)) = ps"
proof (induction ps arbitrary: st)
  case Nil
  show ?case by (simp add: ret_def offer_targets_def emitted_def)
next
  case (Cons p ps)
  from caps obtain d where d: "createOffer b (length (heap st)) = Inr d"
      "setLocalDescription b (length (heap st)) d = Inr ()"
    by blast
  note mo = makeOffer_ok [OF Cons.prems d]
  obtain fx st1 where run: "makeOffer b p st = (Inr (), fx, st1)"
    using mo(1) [of p] by (cases "makeOffer b p st") auto
  have fx: "offer_targets fx = [p]"
    using mo(2) [of p] run by (simp add: offer_targets_single)
  have "localStreamRef st1 = Some s"
    using mo(3) [of p] run by simp
  from Cons.IH [OF this]
  obtain fx' st2 where rest: "makeOffers b ps st1 = (Inr (), fx', st2)" "offer_targets fx' = ps"
    by (cases "makeOffers b ps st1") auto
  from run rest fx show ?case
    by (simp add: and_then_def offer_targets_append)
qed

subsection \<open>Every emitted message has its wire shape\<close>

lemma makeOffers_wire:
  "m \<in> set (emitted (effects_of (makeOffers b ps st))) \<Longrightarrow> wire_ok (socket_id st) m"
proof (induction ps arbitrary: st)
  case Nil
  then show ?case by (simp add: ret_def emitted_def)
next
  case (Cons p ps)
  obtain r fx st1 where run: "makeOffer b p st = (r, fx, st1)"
    by (cases "makeOffer b p st") auto
  have sid: "socket_id st1 = socket_id st"
    using makeOffer_socket_id [of b p st] run by simp
  have first: "wire_ok (socket_id st) m" if "m \<in> set (emitted fx)"
    using makeOffer_emits [of m b p st] run that by (auto simp add: wire_ok_offer)
  show ?case
  proof (cases r)
    case (Inl e)
    with Cons.prems run first show ?thesis
      by (simp add: and_then_def)
  next
    case (Inr u)
    obtain r' fx' st2 where rest: "makeOffers b ps st1 = (r', fx', st2)"
      by (cases "makeOffers b ps st1") auto
    from Cons.prems run Inr rest have "m \<in> set (emitted fx) \<or> m \<in> set (emitted fx')"
      by (simp add: and_then_def emitted_append)
    then show ?thesis
    proof
      assume "m \<in> set (emitted fx)"
      then show ?thesis by (rule first)
    next
      assume "m \<in> set (emitted fx')"
      with Cons.IH [of st1] rest sid show ?thesis by simp
    qed
  qed
qed

lemma joinRoom_ack_wire:
  "m \<in> set (emitted (effects_of (joinRoom_ack b res st))) \<Longrightarrow> wire_ok (socket_id st) m"
proof (cases "not_ok res")
  case True
  assume "m \<in> set (emitted (effects_of (joinRoom_ack b res st)))"
  with True show ?thesis
    by (simp add: joinRoom_ack_def setError_def modify_def emitted_def)
next
  case False
  assume m: "m \<in> set (emitted (effects_of (joinRoom_ack b res st)))"
  define ps where
    "ps = (case res of None \<Rightarrow> [] | Some a \<Rightarrow> (case ack_peers a of None \<Rightarrow> [] | Some ps \<Rightarrow> ps))"
  obtain r fx0 st0 where run0: "initLocalMedia b st = (r, fx0, st0)"
    by (cases "initLocalMedia b st") auto
  have fx0: "emitted fx0 = []" and sid: "socket_id st0 = socket_id st"
    using run0 by (auto simp add: initLocalMedia_unfold emitted_def split: option.splits sum.splits)
  show ?thesis
  proof (cases r)
    case (Inl e)
    with m False run0 fx0 show ?thesis
      by (simp add: joinRoom_ack_def and_then_def)
  next
    case (Inr s)
    obtain r' fx' st2 where rest: "makeOffers b ps (st0\<lparr>inRoom := True\<rparr>) = (r', fx', st2)"
      by (cases "makeOffers b ps (st0\<lparr>inRoom := True\<rparr>)") auto
    from m False run0 Inr rest fx0 have "m \<in> set (emitted fx')"
      by (simp add: joinRoom_ack_def and_then_def setInRoom_def modify_def emitted_append ps_def)
    with makeOffers_wire [of m b ps "st0\<lparr>inRoom := True\<rparr>"] rest sid show ?thesis
      by simp
  qed
qed

lemma handle_wire:
  "m \<in> set (emitted (effects_of (handle b ev st))) \<Longrightarrow> wire_ok (socket_id st) m"
proof (cases ev)
  case (PeerJoined p)
  assume "m \<in> set (emitted (effects_of (handle b ev st)))"
  with PeerJoined makeOffer_emits [of m b p st] show ?thesis
    by (auto simp add: wire_ok_offer)
next
  case (PeerLeft p)
  assume "m \<in> set (emitted (effects_of (handle b ev st)))"
  with PeerLeft show ?thesis
    by (auto simp add: cleanupPeer_unfold emitted_def split: option.splits)
next
  case (WebrtcOffer f sdp)
  assume "m \<in> set (emitted (effects_of (handle b ev st)))"
  with WebrtcOffer handleOffer_emits [of m b f sdp st] show ?thesis
    by (auto simp add: wire_ok_answer)
next
  case (WebrtcAnswer f sdp)
  assume "m \<in> set (emitted (effects_of (handle b ev st)))"
  with WebrtcAnswer show ?thesis
    by (auto simp add: handleAnswer_unfold emitted_def split: option.splits)
next
  case (WebrtcIce f c)
  assume "m \<in> set (emitted (effects_of (handle b ev st)))"
  with WebrtcIce show ?thesis
    by (auto simp add: handleIce_unfold emitted_def split: option.splits)
next
  case (HostRoomAck res)
  assume "m \<in> set (emitted (effects_of (handle b ev st)))"
  with HostRoomAck show ?thesis
    by (simp add: hostRoom_ack_def setError_def setInRoom_def initLocalMedia_unfold io_defs emitted_def
        split: option.splits sum.splits if_splits)
next
  case (JoinRoomAck res)
  assume "m \<in> set (emitted (effects_of (handle b ev st)))"
  with JoinRoomAck show ?thesis
    by (simp add: joinRoom_ack_wire)
next
  case HostRoomClick
  assume "m \<in> set (emitted (effects_of (handle b ev st)))"
  with HostRoomClick show ?thesis
    by (auto simp add: hostRoom_def setError_def io_defs emitted_def wire_ok_def)
next
  case JoinRoomClick
  assume "m \<in> set (emitted (effects_of (handle b ev st)))"
  with JoinRoomClick show ?thesis
    by (auto simp add: joinRoom_def setError_def io_defs emitted_def wire_ok_def)
next
  case (PcTrack r tev)
  assume "m \<in> set (emitted (effects_of (handle b ev st)))"
  with PcTrack show ?thesis
    by (simp add: ontrack_def setRemote_def io_defs emitted_def split: if_splits)
next
  case (PcIceCandidate r iev)
  assume "m \<in> set (emitted (effects_of (handle b ev st)))"
  with PcIceCandidate show ?thesis
    by (auto simp add: onicecandidate_def onIceCandidate_def io_defs emitted_def wire_ok_ice
        split: if_splits option.splits)
qed

section \<open>The factory forwards exactly the non-null candidates\<close>

lemma onicecandidate_null: "onicecandidate p cb (IceEvent None) = ret ()"
  by (simp add: onicecandidate_def)

lemma onicecandidate_some: "onicecandidate p cb (IceEvent (Some c)) = cb p c"
  by (simp add: onicecandidate_def)

text \<open>
  Claim C9.  For every callback \<open>cb\<close> given to the factory as
  \<^verbatim>\<open>onIceCandidate\<close>, every peer and every sequence of ICE events of the
  connection: the end-of-candidates event (null candidate) does nothing at all, an
  event with a candidate is exactly one call \<open>cb peerId c\<close>, and dispatching the
  whole sequence is the same as calling \<open>cb peerId\<close> on the non-null candidates,
  in order, and on nothing else.
\<close>

theorem onicecandidate_forwards_nonnull:
  "onicecandidate p cb (IceEvent None) st = (Inr (), [], st)
   \<and> onicecandidate p cb (IceEvent (Some c)) st = cb p c st
   \<and> dispatch (onicecandidate p cb) evs st = dispatch (cb p) (candidates_of evs) st"
proof -
  have seq: "dispatch (onicecandidate p cb) evs s = dispatch (cb p) (candidates_of evs) s" for s
  proof (induction evs arbitrary: s)
    case Nil
    show ?case by (simp add: candidates_of_def)
  next
    case (Cons ev evs)
    obtain oc where ev: "ev = IceEvent oc" by (cases ev)
    show ?case
    proof (cases oc)
      case None
      with ev Cons show ?thesis
        by (simp add: candidates_of_def onicecandidate_null ret_def)
    next
      case (Some c)
      with ev Cons show ?thesis
        by (simp add: candidates_of_def onicecandidate_some split: prod.splits)
    qed
  qed
  show ?thesis
    by (simp add: onicecandidate_null onicecandidate_some ret_def seq)
qed

section \<open>Who offers to whom\<close>

text \<open>
  Claim C1, as the code has it.  The existing member reacts to
  \<^verbatim>\<open>peer-joined{joiner}\<close> with \<^verbatim>\<open>makeOffer(joiner)\<close>, and the joiner
  reacts to its own \<^verbatim>\<open>join-room\<close> acknowledgment with \<^verbatim>\<open>makeOffer\<close>
  for every listed member.  So when the media and the two negotiation calls of an
  offer are fulfilled, the member emits exactly one \<^verbatim>\<open>webrtc-offer\<close>, to the
  joiner, and the joiner emits one \<^verbatim>\<open>webrtc-offer\<close> to each listed member, in
  the order listed: both sides of every edge offer.
\<close>

theorem both_sides_offer:
  assumes media: "getUserMedia b = Inr s"
    and caps: "\<forall>r. \<exists>d. createOffer b r = Inr d \<and> setLocalDescription b r d = Inr ()"
  shows "offer_targets (effects_of (handle b (PeerJoined joiner) st_member)) = [joiner]
     \<and> offer_targets (effects_of (handle b
          (JoinRoomAck (Some \<lparr>ack_ok = True, ack_error = e, ack_peers = Some members\<rparr>)) st_joiner))
        = members"
proof -
  have member: "offer_targets (effects_of (makeOffer b joiner st_member)) = [joiner]"
  proof -
    from caps obtain d where d: "createOffer b (length (heap st_member)) = Inr d"
        "setLocalDescription b (length (heap st_member)) d = Inr ()"
      by blast
    with media show ?thesis
      by (simp add: makeOffer_def createPeerConnection_def initLocalMedia_unfold io_defs Let_def
          offer_targets_def offer_to_def emitted_append emitted_AddTrack emitted_def peer_name_inverse
          split: option.splits)
  qed
  have joiner: "offer_targets (effects_of (joinRoom_ack b
        (Some \<lparr>ack_ok = True, ack_error = e, ack_peers = Some members\<rparr>) st_joiner)) = members"
  proof -
    from initLocalMedia_ok [OF media, of st_joiner]
    obtain s2 fx0 st0 where run0: "initLocalMedia b st_joiner = (Inr s2, fx0, st0)"
      and cached: "localStreamRef st0 = Some s2" and fx0: "emitted fx0 = []"
      by blast
    have cached': "localStreamRef (st0\<lparr>inRoom := True\<rparr>) = Some s2"
      using cached by simp
    from makeOffers_ok [OF caps cached', of members]
    obtain fx1 st1 where run1: "makeOffers b members (st0\<lparr>inRoom := True\<rparr>) = (Inr (), fx1, st1)"
      and fx1: "offer_targets fx1 = members"
      by (cases "makeOffers b members (st0\<lparr>inRoom := True\<rparr>)") auto
    from run0 run1 fx0 fx1 show ?thesis
      by (simp add: joinRoom_ack_def not_ok_def setInRoom_def and_then_def modify_def
          offer_targets_def emitted_append)
  qed
  from member joiner show ?thesis by simp
qed

theorem both_sides_offer_witness:
  "getUserMedia browser_ok = Inr camera
   \<and> (\<forall>r. \<exists>d. createOffer browser_ok r = Inr d \<and> setLocalDescription browser_ok r d = Inr ())
   \<and> offer_targets (effects_of (handle browser_ok (PeerJoined (Peer ''B'')) in_call)) = [Peer ''B'']
   \<and> offer_targets (effects_of (handle browser_ok
        (JoinRoomAck (Some \<lparr>ack_ok = True, ack_error = None, ack_peers = Some [Peer ''A'', Peer ''C'']\<rparr>))
        (init (Peer ''B'')))) = [Peer ''A'', Peer ''C'']"
proof -
  have media: "getUserMedia browser_ok = Inr camera"
    by (simp add: browser_ok_def)
  have caps: "\<forall>r. \<exists>d. createOffer browser_ok r = Inr d \<and> setLocalDescription browser_ok r d = Inr ()"
    by (simp add: browser_ok_def)
  from both_sides_offer [OF media caps, of "Peer ''B''" in_call None "[Peer ''A'', Peer ''C'']" "init (Peer ''B'')"]
    media caps
  show ?thesis by simp
qed

text \<open>
  Claim C1 as stated fails.  \<open>A\<close> is in the room, \<open>B\<close> joins and is told
  \<^verbatim>\<open>peers: [A]\<close>: \<open>A\<close> sends a \<^verbatim>\<open>webrtc-offer\<close> to \<open>B\<close>, and \<open>B\<close>
  also sends one to \<open>A\<close>.
\<close>

theorem single_offerer_counterexample:
  "emitted (effects_of (handle browser_ok (PeerJoined (Peer ''B'')) (init (Peer ''A'')))) =
     [(''webrtc-offer'',
       [(''to'', JStr ''B''), (''from'', JStr ''A''), (''sdp'', JSdp (SessionDescription ''offer''))])]
   \<and> emitted (effects_of (handle browser_ok
        (JoinRoomAck (Some \<lparr>ack_ok = True, ack_error = None, ack_peers = Some [Peer ''A'']\<rparr>))
        (init (Peer ''B'')))) =
     [(''webrtc-offer'',
       [(''to'', JStr ''A''), (''from'', JStr ''B''), (''sdp'', JSdp (SessionDescription ''offer''))])]"
  by (simp add: handler_defs io_defs browser_ok_def init_def camera_def Let_def emitted_def peer_simps)

section \<open>Sessions are created on every reference\<close>

text \<open>
  Claim C2, as the code has it.  Whenever the local media is there, both the offer
  path (\<^verbatim>\<open>makeOffer\<close>) and the answer path (\<^verbatim>\<open>handleOffer\<close>) allocate a
  new connection, at a reference no earlier connection has, and store it under the
  peer, replacing whatever the table held for that peer; the connections that
  existed before are all still there, unchanged (the replaced one is not closed).
\<close>

theorem session_created_anew:
  "result_of (initLocalMedia b st) = Inr s \<Longrightarrow>
     pcsRef (state_of (makeOffer b p st)) p = Some (length (heap st))
     \<and> heap (state_of (makeOffer b p st)) =
         heap st @ [\<lparr>pc_peerId = p, pc_tracks = getTracks s, pc_closed = False\<rparr>]
     \<and> pcsRef (state_of (handleOffer b p sdp st)) p = Some (length (heap st))
     \<and> heap (state_of (handleOffer b p sdp st)) =
         heap st @ [\<lparr>pc_peerId = p, pc_tracks = getTracks s, pc_closed = False\<rparr>]"
  by (simp add: makeOffer_state handleOffer_state)

theorem session_created_anew_witness:
  "pcsRef in_call (Peer ''p'') = Some 0
   \<and> result_of (initLocalMedia browser_ok in_call) = Inr camera
   \<and> pcsRef (state_of (makeOffer browser_ok (Peer ''p'') in_call)) (Peer ''p'') = Some 2
   \<and> length (heap (state_of (makeOffer browser_ok (Peer ''p'') in_call))) = 3
   \<and> pcsRef (state_of (handleOffer browser_ok (Peer ''p'') (SessionDescription ''offer'') in_call)) (Peer ''p'')
       = Some 2
   \<and> map pc_closed (heap (state_of (handleOffer browser_ok (Peer ''p'') (SessionDescription ''offer'')
       in_call))) = [False, False, False]"
proof -
  have media: "result_of (initLocalMedia browser_ok in_call) = Inr camera"
    by (simp add: initLocalMedia_unfold in_call_def)
  from session_created_anew [OF media, of "Peer ''p''" "SessionDescription ''offer''"] media
  show ?thesis by (simp add: in_call_def peer_simps)
qed

text \<open>
  Claim C2 as stated fails.  A first \<^verbatim>\<open>makeOffer\<close> for \<open>p\<close> stores connection
  0; a second reference for the same peer, by \<^verbatim>\<open>makeOffer\<close> or by
  \<^verbatim>\<open>handleOffer\<close>, stores the new connection 1 instead of returning
  connection 0, and both connections stay open.
\<close>

theorem session_reuse_counterexample:
  "pcsRef (state_of (makeOffer browser_ok (Peer ''p'') (init (Peer ''me'')))) (Peer ''p'') = Some 0
   \<and> pcsRef (state_of (makeOffer browser_ok (Peer ''p'')
        (state_of (makeOffer browser_ok (Peer ''p'') (init (Peer ''me'')))))) (Peer ''p'') = Some 1
   \<and> pcsRef (state_of (handleOffer browser_ok (Peer ''p'') (SessionDescription ''offer'')
        (state_of (makeOffer browser_ok (Peer ''p'') (init (Peer ''me'')))))) (Peer ''p'') = Some 1
   \<and> map pc_closed (heap (state_of (makeOffer browser_ok (Peer ''p'')
        (state_of (makeOffer browser_ok (Peer ''p'') (init (Peer ''me''))))))) = [False, False]"
  by (simp add: handler_defs io_defs browser_ok_def init_def camera_def Let_def)

section \<open>Teardown\<close>

text \<open>
  Claim C3.  For every peer \<open>p\<close> and every state, handling \<^verbatim>\<open>peer-left{p}\<close>
  completes normally; it calls \<^verbatim>\<open>close()\<close> on the connection the table holds
  for \<open>p\<close> (and on nothing else), after which that connection is closed; the table
  has no entry for \<open>p\<close> and no remote stream is stored for \<open>p\<close>.
\<close>

theorem peer_left_tears_down:
  "result_of (handle b (PeerLeft p) st) = Inr ()
   \<and> effects_of (handle b (PeerLeft p) st) = (case pcsRef st p of None \<Rightarrow> [] | Some r \<Rightarrow> [Close r])
   \<and> pcsRef (state_of (handle b (PeerLeft p) st)) p = None
   \<and> remoteStreams (state_of (handle b (PeerLeft p) st)) p = None
   \<and> (pcsRef st p = Some r \<and> r < length (heap st) \<longrightarrow>
          pc_closed (heap (state_of (handle b (PeerLeft p) st)) ! r))"
  by (simp add: cleanupPeer_unfold)

theorem peer_left_tears_down_witness:
  "pcsRef in_call (Peer ''p'') = Some 0 \<and> 0 < length (heap in_call)
   \<and> \<not> pc_closed (heap in_call ! 0)
   \<and> remoteStreams in_call (Peer ''p'') = Some (Some camera)
   \<and> effects_of (handle browser_ok (PeerLeft (Peer ''p'')) in_call) = [Close 0]
   \<and> pc_closed (heap (state_of (handle browser_ok (PeerLeft (Peer ''p'')) in_call)) ! 0)
   \<and> pcsRef (state_of (handle browser_ok (PeerLeft (Peer ''p'')) in_call)) (Peer ''p'') = None
   \<and> remoteStreams (state_of (handle browser_ok (PeerLeft (Peer ''p'')) in_call)) (Peer ''p'') = None"
  using peer_left_tears_down [of browser_ok "Peer ''p''" in_call 0]
  by (simp add: in_call_def peer_simps)

text \<open>
  Claim C6, as the code has it.  For a peer \<open>p\<close> with no entry in the session
  table, \<^verbatim>\<open>cleanupPeer(p)\<close> completes normally, closes nothing, and leaves the
  table and every connection as they were; of the remote streams it removes the
  one stored for \<open>p\<close>.  So it changes nothing at all when, besides, no remote
  stream is stored for \<open>p\<close>; and a second teardown right after a first always
  changes nothing.
\<close>

theorem teardown_without_session:
  "(pcsRef st p = None \<longrightarrow>
      result_of (cleanupPeer p st) = Inr ()
      \<and> effects_of (cleanupPeer p st) = []
      \<and> pcsRef (state_of (cleanupPeer p st)) = pcsRef st
      \<and> heap (state_of (cleanupPeer p st)) = heap st
      \<and> remoteStreams (state_of (cleanupPeer p st)) = (remoteStreams st)(p := None))
   \<and> (pcsRef st p = None \<and> remoteStreams st p = None \<longrightarrow> cleanupPeer p st = (Inr (), [], st))
   \<and> cleanupPeer p (state_of (cleanupPeer p st)) = (Inr (), [], state_of (cleanupPeer p st))"
proof -
  have idem: "m p = None \<Longrightarrow> m(p := None) = m" for m :: "peer_id \<rightharpoonup> 'v"
    by (simp add: fun_upd_idem)
  show ?thesis
    by (simp add: cleanupPeer_unfold idem)
qed

theorem teardown_without_session_witness:
  "pcsRef in_call (Peer ''z'') = None \<and> remoteStreams in_call (Peer ''z'') = None
   \<and> cleanupPeer (Peer ''z'') in_call = (Inr (), [], in_call)
   \<and> effects_of (cleanupPeer (Peer ''p'') (state_of (cleanupPeer (Peer ''p'') in_call))) = []"
  using teardown_without_session [of in_call "Peer ''z''"] teardown_without_session [of in_call "Peer ''p''"]
  by (simp add: in_call_def peer_simps)

text \<open>
  Claim C6 as stated fails where the table has no entry for \<open>p\<close> while a remote
  stream of \<open>p\<close> is stored: the teardown removes the stream, so the remote-stream
  map is not what it was.
\<close>

theorem teardown_noop_counterexample:
  "pcsRef stale_stream (Peer ''p'') = None
   \<and> remoteStreams stale_stream (Peer ''p'') = Some (Some camera)
   \<and> remoteStreams (state_of (cleanupPeer (Peer ''p'') stale_stream)) (Peer ''p'') = None
   \<and> remoteStreams (state_of (cleanupPeer (Peer ''p'') stale_stream)) \<noteq> remoteStreams stale_stream"
proof -
  have a: "pcsRef stale_stream (Peer ''p'') = None" "remoteStreams stale_stream (Peer ''p'') = Some (Some camera)"
    by (simp_all add: stale_stream_def)
  have b: "remoteStreams (state_of (cleanupPeer (Peer ''p'') stale_stream)) (Peer ''p'') = None"
    by (simp add: cleanupPeer_unfold)
  from a b have "remoteStreams (state_of (cleanupPeer (Peer ''p'') stale_stream)) (Peer ''p'')
      \<noteq> remoteStreams stale_stream (Peer ''p'')"
    by simp
  then have "remoteStreams (state_of (cleanupPeer (Peer ''p'') stale_stream)) \<noteq> remoteStreams stale_stream"
    by metis
  with a b show ?thesis by simp
qed

text \<open>
  The handlers lead to that state: the client offers to \<open>p\<close> (connection 0),
  gets the answer, then gets an offer from \<open>p\<close> (connection 1 replaces 0 in the
  table, 0 stays open), \<open>p\<close> leaves (connection 1 is closed, both entries deleted),
  and connection 0, whose callbacks are still installed, reports a track.
\<close>

lemma stale_stream_reachable:
  "snd (dispatch (handle browser_ok)
     [PeerJoined (Peer ''p''),
      WebrtcAnswer (Peer ''p'') (SessionDescription ''answer''),
      WebrtcOffer (Peer ''p'') (SessionDescription ''offer''),
      PeerLeft (Peer ''p''),
      PcTrack 0 (TrackEvent [camera])] (init (Peer ''me''))) = stale_stream"
  by (simp add: handler_defs io_defs browser_ok_def init_def stale_stream_def camera_def Let_def)

text \<open>
  Claim C7, as the code has it.  For every state, every peer \<open>p\<close> and every
  other peer \<open>q\<close>: tearing down \<open>p\<close> leaves the table entry and the remote
  stream of \<open>q\<close> as they were and changes no connection but the one the table
  held for \<open>p\<close>; an offer to \<open>p\<close> and an offer from \<open>p\<close> leave the entries
  of \<open>q\<close> and every existing connection as they were, an answer or a candidate
  from \<open>p\<close> leaves the whole state as it was.  A failure on an edge closes no
  edge at all: none of these four handlers ever calls \<^verbatim>\<open>close()\<close>, and once
  the local media is there the connection created for \<open>p\<close> is stored in the
  table and open when the handler ends, however the negotiation calls end.
\<close>

theorem teardown_frame:
  "(q \<noteq> p \<longrightarrow>
      pcsRef (state_of (cleanupPeer p st)) q = pcsRef st q
      \<and> remoteStreams (state_of (cleanupPeer p st)) q = remoteStreams st q
      \<and> pcsRef (state_of (makeOffer b p st)) q = pcsRef st q
      \<and> remoteStreams (state_of (makeOffer b p st)) q = remoteStreams st q
      \<and> pcsRef (state_of (handleOffer b p sdp st)) q = pcsRef st q
      \<and> remoteStreams (state_of (handleOffer b p sdp st)) q = remoteStreams st q)
   \<and> length (heap (state_of (cleanupPeer p st))) = length (heap st)
   \<and> (pcsRef st p \<noteq> Some r \<longrightarrow> heap (state_of (cleanupPeer p st)) ! r = heap st ! r)
   \<and> (r < length (heap st) \<longrightarrow> heap (state_of (makeOffer b p st)) ! r = heap st ! r)
   \<and> (r < length (heap st) \<longrightarrow> heap (state_of (handleOffer b p sdp st)) ! r = heap st ! r)
   \<and> state_of (handleAnswer b p sdp st) = st
   \<and> state_of (handleIce b p c st) = st
   \<and> Close r \<notin> set (effects_of (makeOffer b p st))
   \<and> Close r \<notin> set (effects_of (handleOffer b p sdp st))
   \<and> Close r \<notin> set (effects_of (handleAnswer b p sdp st))
   \<and> Close r \<notin> set (effects_of (handleIce b p c st))
   \<and> (result_of (initLocalMedia b st) = Inr s \<longrightarrow>
        pcsRef (state_of (makeOffer b p st)) p = Some (length (heap st))
        \<and> \<not> pc_closed (heap (state_of (makeOffer b p st)) ! length (heap st))
        \<and> pcsRef (state_of (handleOffer b p sdp st)) p = Some (length (heap st))
        \<and> \<not> pc_closed (heap (state_of (handleOffer b p sdp st)) ! length (heap st)))"
proof -
  have frame: "q \<noteq> p \<longrightarrow>
      pcsRef (state_of (cleanupPeer p st)) q = pcsRef st q
      \<and> remoteStreams (state_of (cleanupPeer p st)) q = remoteStreams st q
      \<and> pcsRef (state_of (makeOffer b p st)) q = pcsRef st q
      \<and> remoteStreams (state_of (makeOffer b p st)) q = remoteStreams st q
      \<and> pcsRef (state_of (handleOffer b p sdp st)) q = pcsRef st q
      \<and> remoteStreams (state_of (handleOffer b p sdp st)) q = remoteStreams st q"
    by (simp add: cleanupPeer_unfold makeOffer_state handleOffer_state initLocalMedia_frame
        split: sum.splits)
  have conns: "length (heap (state_of (cleanupPeer p st))) = length (heap st)
      \<and> (pcsRef st p \<noteq> Some r \<longrightarrow> heap (state_of (cleanupPeer p st)) ! r = heap st ! r)
      \<and> (r < length (heap st) \<longrightarrow> heap (state_of (makeOffer b p st)) ! r = heap st ! r)
      \<and> (r < length (heap st) \<longrightarrow> heap (state_of (handleOffer b p sdp st)) ! r = heap st ! r)
      \<and> state_of (handleAnswer b p sdp st) = st
      \<and> state_of (handleIce b p c st) = st"
    by (simp add: cleanupPeer_unfold makeOffer_state handleOffer_state handleAnswer_unfold
        handleIce_unfold initLocalMedia_frame nth_append split: option.splits sum.splits)
  have no_close: "Close r \<notin> set (effects_of (makeOffer b p st))
      \<and> Close r \<notin> set (effects_of (handleOffer b p sdp st))
      \<and> Close r \<notin> set (effects_of (handleAnswer b p sdp st))
      \<and> Close r \<notin> set (effects_of (handleIce b p c st))"
    by (auto simp add: makeOffer_def handleOffer_def createPeerConnection_def initLocalMedia_unfold
        io_defs Let_def handleAnswer_unfold handleIce_unfold split: option.splits sum.splits)
  have stored: "result_of (initLocalMedia b st) = Inr s \<longrightarrow>
        pcsRef (state_of (makeOffer b p st)) p = Some (length (heap st))
        \<and> \<not> pc_closed (heap (state_of (makeOffer b p st)) ! length (heap st))
        \<and> pcsRef (state_of (handleOffer b p sdp st)) p = Some (length (heap st))
        \<and> \<not> pc_closed (heap (state_of (handleOffer b p sdp st)) ! length (heap st))"
    by (simp add: makeOffer_state handleOffer_state)
  from frame conns no_close stored show ?thesis by simp
qed

theorem teardown_frame_witness:
  "Peer ''q'' \<noteq> Peer ''p''
   \<and> pcsRef in_call (Peer ''q'') = Some 1
   \<and> pcsRef (state_of (cleanupPeer (Peer ''p'') in_call)) (Peer ''q'') = Some 1
   \<and> remoteStreams (state_of (cleanupPeer (Peer ''p'') in_call)) (Peer ''q'') = Some (Some camera)
   \<and> pcsRef in_call (Peer ''p'') \<noteq> Some 1
   \<and> heap (state_of (cleanupPeer (Peer ''p'') in_call)) ! 1 = heap in_call ! 1
   \<and> \<not> pc_closed (heap (state_of (cleanupPeer (Peer ''p'') in_call)) ! 1)
   \<and> pc_closed (heap (state_of (cleanupPeer (Peer ''p'') in_call)) ! 0)
   \<and> result_of (initLocalMedia browser_bad_remote in_call) = Inr camera
   \<and> pcsRef (state_of (handleOffer browser_bad_remote (Peer ''p'') (SessionDescription ''offer'')
        in_call)) (Peer ''p'') = Some 2
   \<and> pcsRef (state_of (handleOffer browser_bad_remote (Peer ''p'') (SessionDescription ''offer'')
        in_call)) (Peer ''q'') = Some 1
   \<and> map pc_closed (heap (state_of (handleOffer browser_bad_remote (Peer ''p'')
        (SessionDescription ''offer'') in_call))) = [False, False, False]"
  using teardown_frame [where q = "Peer ''q''" and p = "Peer ''p''" and st = in_call and r = 1
      and b = browser_bad_remote and sdp = "SessionDescription ''offer''" and s = camera]
  by (simp add: in_call_def cleanupPeer_unfold handleOffer_state initLocalMedia_unfold peer_simps)

text \<open>
  Claim C7 as stated fails in its last part.  The remote description of an offer
  from \<open>p\<close> is rejected: the handler ends with the exception, nothing is closed,
  and the connection created for \<open>p\<close> stays in the table, open.
\<close>

theorem failed_edge_not_closed_counterexample:
  "handleOffer browser_bad_remote (Peer ''p'') (SessionDescription ''offer'') (init (Peer ''me'')) =
     (Inl (Exn ''InvalidAccessError''),
      [GetUserMedia, NewRTCPeerConnection 0,
       AddTrack 0 (MediaStreamTrack ''audio''), AddTrack 0 (MediaStreamTrack ''video''),
       SetRemoteDescription 0 (SessionDescription ''offer'')],
      (init (Peer ''me''))
        \<lparr>localStreamRef := Some camera,
         pcsRef := [Peer ''p'' \<mapsto> 0],
         heap := [\<lparr>pc_peerId = Peer ''p'', pc_tracks = getTracks camera, pc_closed = False\<rparr>]\<rparr>)"
  by (simp add: handler_defs io_defs browser_bad_remote_def browser_ok_def init_def camera_def Let_def)

section \<open>The answerer path\<close>

text \<open>
  Claim C4.  On a \<^verbatim>\<open>webrtc-offer\<close> from \<open>f\<close> with description \<open>sdp\<close>, when
  the local media is there and the three negotiation calls are fulfilled, the
  handler completes normally and performs, after acquiring the media and creating
  the connection with the local tracks, exactly these steps in this order: set the
  remote description to \<open>sdp\<close>, create the answer, set it as the local
  description, emit \<^verbatim>\<open>webrtc-answer\<close> with \<^verbatim>\<open>to\<close> = \<open>f\<close>,
  \<^verbatim>\<open>from\<close> = the client's own identifier and \<^verbatim>\<open>sdp\<close> = that answer.
\<close>

theorem handleOffer_answers_in_order:
  assumes media: "result_of (initLocalMedia b st) = Inr localStream"
    and remote: "setRemoteDescription b (length (heap st)) sdp = Inr ()"
    and answer: "createAnswer b (length (heap st)) = Inr answer"
    and local: "setLocalDescription b (length (heap st)) answer = Inr ()"
  shows "result_of (handleOffer b f sdp st) = Inr ()
     \<and> effects_of (handleOffer b f sdp st) =
         effects_of (initLocalMedia b st)
         @ NewRTCPeerConnection (length (heap st))
         # map (AddTrack (length (heap st))) (getTracks localStream)
         @ [SetRemoteDescription (length (heap st)) sdp,
            CreateAnswer (length (heap st)),
            SetLocalDescription (length (heap st)) answer,
            Emit ''webrtc-answer''
              [(''to'', JStr (peer_name f)), (''from'', JStr (peer_name (socket_id st))), (''sdp'', JSdp answer)]]
     \<and> pcsRef (state_of (handleOffer b f sdp st)) f = Some (length (heap st))"
  using assms
  by (auto simp add: handleOffer_def createPeerConnection_def initLocalMedia_unfold io_defs Let_def
      split: option.splits sum.splits)

theorem handleOffer_answers_in_order_witness:
  "result_of (initLocalMedia browser_ok (init (Peer ''me''))) = Inr camera
   \<and> setRemoteDescription browser_ok 0 (SessionDescription ''remote offer'') = Inr ()
   \<and> createAnswer browser_ok 0 = Inr (SessionDescription ''answer'')
   \<and> setLocalDescription browser_ok 0 (SessionDescription ''answer'') = Inr ()
   \<and> effects_of (handleOffer browser_ok (Peer ''f'') (SessionDescription ''remote offer'') (init (Peer ''me''))) =
       [GetUserMedia, NewRTCPeerConnection 0,
        AddTrack 0 (MediaStreamTrack ''audio''), AddTrack 0 (MediaStreamTrack ''video''),
        SetRemoteDescription 0 (SessionDescription ''remote offer''),
        CreateAnswer 0,
        SetLocalDescription 0 (SessionDescription ''answer''),
        Emit ''webrtc-answer''
          [(''to'', JStr ''f''), (''from'', JStr ''me''), (''sdp'', JSdp (SessionDescription ''answer''))]]"
proof -
  have media: "result_of (initLocalMedia browser_ok (init (Peer ''me''))) = Inr camera"
    by (simp add: initLocalMedia_unfold init_def browser_ok_def)
  have remote: "setRemoteDescription browser_ok (length (heap (init (Peer ''me''))))
      (SessionDescription ''remote offer'') = Inr ()"
    by (simp add: browser_ok_def)
  have answer: "createAnswer browser_ok (length (heap (init (Peer ''me'')))) = Inr (SessionDescription ''answer'')"
    by (simp add: browser_ok_def)
  have local: "setLocalDescription browser_ok (length (heap (init (Peer ''me''))))
      (SessionDescription ''answer'') = Inr ()"
    by (simp add: browser_ok_def)
  from handleOffer_answers_in_order [OF media remote answer local, of "Peer ''f''"] media
  show ?thesis
    by (simp add: initLocalMedia_unfold init_def browser_ok_def camera_def peer_simps)
qed

section \<open>Candidates and answers\<close>

text \<open>
  Claim C5.  For every \<^verbatim>\<open>webrtc-ice\<close> message, whatever
  \<^verbatim>\<open>addIceCandidate\<close> answers, handling it completes normally, leaves the
  whole state (session table, remote streams, connections) as it was, and does
  nothing but the one \<^verbatim>\<open>addIceCandidate\<close> call on the sender's connection; in
  particular when that call fails.
\<close>

theorem ice_failure_swallowed:
  "result_of (handleIce b f c st) = Inr ()
   \<and> state_of (handleIce b f c st) = st
   \<and> effects_of (handleIce b f c st) =
       (case pcsRef st f of None \<Rightarrow> [] | Some r \<Rightarrow> [AddIceCandidate r c])
   \<and> (pcsRef st f = Some r \<and> addIceCandidate b r c = Inl e \<longrightarrow>
        handle b (WebrtcIce f c) st = (Inr (), [AddIceCandidate r c], st))"
  by (simp add: handleIce_unfold split: option.splits)

theorem ice_failure_swallowed_witness:
  "pcsRef in_call (Peer ''p'') = Some 0
   \<and> addIceCandidate browser_early_candidate 0 (IceCandidate ''c'') = Inl (Exn ''InvalidStateError'')
   \<and> handle browser_early_candidate (WebrtcIce (Peer ''p'') (IceCandidate ''c'')) in_call =
       (Inr (), [AddIceCandidate 0 (IceCandidate ''c'')], in_call)"
  using ice_failure_swallowed [of browser_early_candidate "Peer ''p''" "IceCandidate ''c''" in_call 0
      "Exn ''InvalidStateError''"]
  by (simp add: in_call_def browser_early_candidate_def browser_ok_def peer_simps)

text \<open>
  Claim C10.  A \<^verbatim>\<open>webrtc-answer\<close> or a \<^verbatim>\<open>webrtc-ice\<close> from a peer with no
  entry in the session table does nothing: the handler completes normally, calls
  nothing (no connection is created, no description or candidate applied) and
  leaves the whole state as it was.
\<close>

theorem no_session_ignored:
  "pcsRef st f = None \<Longrightarrow>
     handleAnswer b f sdp st = (Inr (), [], st) \<and> handleIce b f c st = (Inr (), [], st)
     \<and> handle b (WebrtcAnswer f sdp) st = (Inr (), [], st)
     \<and> handle b (WebrtcIce f c) st = (Inr (), [], st)"
  by (simp add: handleAnswer_unfold handleIce_unfold)

theorem no_session_ignored_witness:
  "pcsRef in_call (Peer ''z'') = None
   \<and> handle browser_ok (WebrtcAnswer (Peer ''z'') (SessionDescription ''answer'')) in_call = (Inr (), [], in_call)
   \<and> handle browser_ok (WebrtcIce (Peer ''z'') (IceCandidate ''c'')) in_call = (Inr (), [], in_call)"
proof -
  have none: "pcsRef in_call (Peer ''z'') = None"
    by (simp add: in_call_def peer_simps)
  from no_session_ignored [OF none, of browser_ok "SessionDescription ''answer''" "IceCandidate ''c''"]
    none
  show ?thesis by simp
qed

section \<open>Wire payloads\<close>

text \<open>
  Claim C8.  Every message \<^verbatim>\<open>makeOffer\<close> emits is a \<^verbatim>\<open>webrtc-offer\<close>
  with payload \<^verbatim>\<open>{to, from, sdp}\<close>, \<^verbatim>\<open>to\<close> the peer offered to; every
  message \<^verbatim>\<open>handleOffer\<close> emits is a \<^verbatim>\<open>webrtc-answer\<close> with payload
  \<^verbatim>\<open>{to, from, sdp}\<close>, \<^verbatim>\<open>to\<close> the sender of the offer; the candidate
  callback emits one \<^verbatim>\<open>webrtc-ice\<close> with payload
  \<^verbatim>\<open>{to, from, candidate}\<close>, \<^verbatim>\<open>to\<close> the peer the connection was created
  for; \<^verbatim>\<open>from\<close> is the client's own identifier each time.  And whatever event
  the client handles, every \<^verbatim>\<open>webrtc-offer\<close>, \<^verbatim>\<open>webrtc-answer\<close> and
  \<^verbatim>\<open>webrtc-ice\<close> it emits has this shape.
\<close>

theorem wire_payloads:
  "(\<forall>m \<in> set (emitted (effects_of (makeOffer b p st))).
      \<exists>d. m = (''webrtc-offer'', [(''to'', JStr (peer_name p)), (''from'', JStr (peer_name (socket_id st))), (''sdp'', JSdp d)]))
   \<and> (\<forall>m \<in> set (emitted (effects_of (handleOffer b f sdp st))).
      \<exists>d. m = (''webrtc-answer'', [(''to'', JStr (peer_name f)), (''from'', JStr (peer_name (socket_id st))), (''sdp'', JSdp d)]))
   \<and> effects_of (onIceCandidate p c st) =
       [Emit ''webrtc-ice'' [(''to'', JStr (peer_name p)), (''from'', JStr (peer_name (socket_id st))), (''candidate'', JCand c)]]
   \<and> (r < length (heap st) \<longrightarrow>
        effects_of (handle b (PcIceCandidate r (IceEvent (Some c))) st) =
          [Emit ''webrtc-ice'' [(''to'', JStr (peer_name (pc_peerId (heap st ! r)))),
                               (''from'', JStr (peer_name (socket_id st))), (''candidate'', JCand c)]])
   \<and> (\<forall>m \<in> set (emitted (effects_of (handle b ev st))). wire_ok (socket_id st) m)"
  using makeOffer_emits [of _ b p st] handleOffer_emits [of _ b f sdp st] handle_wire [of _ b ev st]
  by (simp add: onIceCandidate_def onicecandidate_def emit_def)

theorem wire_payloads_witness:
  "emitted (effects_of (makeOffer browser_ok (Peer ''p'') (init (Peer ''me'')))) =
     [(''webrtc-offer'',
       [(''to'', JStr ''p''), (''from'', JStr ''me''), (''sdp'', JSdp (SessionDescription ''offer''))])]
   \<and> emitted (effects_of (handleOffer browser_ok (Peer ''p'') (SessionDescription ''offer'') (init (Peer ''me'')))) =
     [(''webrtc-answer'',
       [(''to'', JStr ''p''), (''from'', JStr ''me''), (''sdp'', JSdp (SessionDescription ''answer''))])]
   \<and> 1 < length (heap in_call)
   \<and> effects_of (handle browser_ok (PcIceCandidate 1 (IceEvent (Some (IceCandidate ''c'')))) in_call) =
     [Emit ''webrtc-ice''
       [(''to'', JStr ''q''), (''from'', JStr ''me''), (''candidate'', JCand (IceCandidate ''c''))]]
   \<and> wire_ok (Peer ''me'') (''webrtc-offer'',
       [(''to'', JStr ''p''), (''from'', JStr ''me''), (''sdp'', JSdp (SessionDescription ''offer''))])"
  using wire_payloads [of browser_ok "Peer ''p''" "init (Peer ''me'')" "Peer ''p''" "SessionDescription ''offer''"
      "IceCandidate ''c''" 1 "PeerJoined (Peer ''p'')"]
    wire_payloads [of browser_ok "Peer ''p''" in_call "Peer ''p''" "SessionDescription ''offer''"
      "IceCandidate ''c''" 1 "PeerJoined (Peer ''p'')"]
  by (simp add: handler_defs io_defs browser_ok_def init_def in_call_def camera_def Let_def emitted_def
      wire_ok_def is_sdp_payload_def peer_simps)

end
